theory Spec2Isabelle
  imports Main
begin

section \<open>The notebook editor pane (notebookEditor.ts)\<close>

text \<open>
  \<^verbatim>\<open>NotebookEditor\<close> binds an editor pane to a notebook widget that it borrows from
  a pool. The class is embedded as a record of its fields and one function per method,
  each taking the pane and returning the pane after the call. The collaborators of the
  class are outside the source file: every call the pane makes on one of them is
  appended to the field \<open>calls\<close>, in program order, so that what the pane did, and in
  which order, can be read off the result.

  The model starts after \<^verbatim>\<open>createEditor\<close> has run (\<^verbatim>\<open>_rootElement\<close> is assigned).
\<close>

subsection \<open>Data\<close>

text \<open>A URI is stood for by its \<^verbatim>\<open>toString()\<close>; an editor group by its id.\<close>

type_synonym URI = string
type_synonym IEditorGroup = nat

text \<open>
  Editor inputs are objects compared by reference (\<^verbatim>\<open>editor === this.input\<close>):
  \<open>inputId\<close> is the identity of the object, so that equality of the values is
  equality of the references.
\<close>

record NotebookEditorInput =
  inputId :: nat
  resource :: URI
  viewType :: string

datatype EditorInput =
    Notebook NotebookEditorInput
  | OtherInput nat

datatype INotebookEditorViewState = ViewState nat

datatype EditorOptions = EditorOptions nat

record CancellationToken =
  isCancellationRequested :: bool

record Dimension =
  width :: int
  height :: int

record NotebookViewModel =
  uri :: URI
  handle :: nat

record NotebookTextModel =
  notebookUri :: URI
  notebookHandle :: nat

datatype NotebookEditorModel = NotebookEditorModel (notebook: NotebookTextModel)

text \<open>
  What the pane reads from a widget: its id, its view model (absent until a model
  has been set) and the view state that \<^verbatim>\<open>getEditorViewState()\<close> returns.
\<close>

record NotebookEditorWidget =
  widgetId :: nat
  viewModel :: "NotebookViewModel option"
  editorViewState :: INotebookEditorViewState

datatype Severity = Ignore | Info | Warning | Error

text \<open>
  The one choice of the prompt: its label (the \<^verbatim>\<open>localize\<close> key) and what
  \<^verbatim>\<open>run\<close> opens: the input's resource with \<^verbatim>\<open>forceFile: true\<close>, under the
  caller's options with \<^verbatim>\<open>override: false\<close> added.
\<close>

record ITextEditorOptions =
  spread :: "EditorOptions option"
  override :: bool

record IPromptChoice =
  label :: string
  runForceFile :: URI
  runOptions :: ITextEditorOptions

datatype disposable =
    FocusListener nat
  | EditorDropTarget nat

datatype error = TypeError | PoolError nat

text \<open>The calls on collaborators, with their arguments; a widget is named by its id.\<close>

datatype call =
    GetEditorViewState nat
  | SaveEditorState IEditorGroup URI INotebookEditorViewState
  | OnWillHide nat
  | RetrieveWidget "IEditorGroup option" NotebookEditorInput
  | WidgetLayout nat Dimension
  | Resolve NotebookEditorInput nat
  | Prompt Severity string "IPromptChoice list"
  | SetModel nat NotebookTextModel "INotebookEditorViewState option" "EditorOptions option"
  | OnDidFocus nat
  | CreateEditorDropTarget nat

text \<open>
  The pane. \<open>input\<close>, \<open>options\<close> and \<open>group\<close> are the fields of the base class;
  \<open>widget\<close> is \<^verbatim>\<open>this._widget.value\<close>, the widget while the borrow holds and
  \<open>None\<close> when it is \<^verbatim>\<open>undefined\<close>; \<open>midWidth\<close> and \<open>narrowWidth\<close> are the two
  classes toggled on \<^verbatim>\<open>_rootElement\<close>; \<open>isEditorPart\<close> is the test
  \<^verbatim>\<open>this.editorGroupService instanceof EditorPart\<close>.
\<close>

record NotebookEditor =
  input :: "EditorInput option"
  options :: "EditorOptions option"
  group :: "IEditorGroup option"
  widget :: "NotebookEditorWidget option"
  dimension :: "Dimension option"
  widgetDisposableStore :: "disposable list"
  midWidth :: bool
  narrowWidth :: bool
  editorMemento :: "IEditorGroup \<times> URI \<rightharpoonup> INotebookEditorViewState"
  isEditorPart :: bool
  calls :: "call list"

text \<open>How a suspended or finished call of an \<^verbatim>\<open>async\<close> method stands.\<close>

datatype completion = Awaiting | Returned | Threw error

subsection \<open>Collaborators\<close>

text \<open>
  Modelled from the spec: the editor memento (\<^verbatim>\<open>IEditorMemento\<close>, declared in
  \<^verbatim>\<open>vs/workbench/common/editor\<close>, not part of the source file). The view-state store
  is keyed by editor group and document URI; a write is last-write-wins per key.
\<close>

definition saveEditorState ::
  "(IEditorGroup \<times> URI \<rightharpoonup> INotebookEditorViewState) \<Rightarrow> IEditorGroup \<Rightarrow> URI \<Rightarrow>
     INotebookEditorViewState \<Rightarrow> (IEditorGroup \<times> URI \<rightharpoonup> INotebookEditorViewState)" where
  "saveEditorState m g r state = m((g, r) \<mapsto> state)"

definition loadEditorState ::
  "(IEditorGroup \<times> URI \<rightharpoonup> INotebookEditorViewState) \<Rightarrow> IEditorGroup \<Rightarrow> URI \<Rightarrow>
     INotebookEditorViewState option" where
  "loadEditorState m g r = m (g, r)"

text \<open>
  Modelled from the spec: the base class \<^verbatim>\<open>BaseEditor\<close>
  (\<^verbatim>\<open>vs/workbench/browser/parts/editor/baseEditor\<close>, not part of the source file).
  Assigning an input makes it the current input, clearing it leaves the pane with no
  input, a visibility change hands the pane its group; \<^verbatim>\<open>onWillHide\<close> and
  \<^verbatim>\<open>saveState\<close> of the base class touch none of the pane's fields.
\<close>

definition BaseEditor_setInput ::
  "NotebookEditor \<Rightarrow> EditorInput \<Rightarrow> EditorOptions option \<Rightarrow> CancellationToken \<Rightarrow> NotebookEditor" where
  "BaseEditor_setInput this inp opts token = this\<lparr>input := Some inp, options := opts\<rparr>"

definition BaseEditor_clearInput :: "NotebookEditor \<Rightarrow> NotebookEditor" where
  "BaseEditor_clearInput this = this\<lparr>input := None, options := None\<rparr>"

definition BaseEditor_setEditorVisible ::
  "NotebookEditor \<Rightarrow> bool \<Rightarrow> IEditorGroup option \<Rightarrow> NotebookEditor" where
  "BaseEditor_setEditorVisible this visible g = this\<lparr>group := g\<rparr>"

definition BaseEditor_onWillHide :: "NotebookEditor \<Rightarrow> NotebookEditor" where
  "BaseEditor_onWillHide this = this"

definition BaseEditor_saveState :: "NotebookEditor \<Rightarrow> NotebookEditor" where
  "BaseEditor_saveState this = this"

text \<open>
  The widget pool (\<^verbatim>\<open>INotebookEditorWidgetService.retrieveWidget\<close>) is a parameter
  of the methods that call it: given the group and the input it hands out a borrow,
  whose value may be \<^verbatim>\<open>undefined\<close>, or throws.
\<close>

type_synonym retrieveWidget =
  "IEditorGroup option \<Rightarrow> NotebookEditorInput \<Rightarrow> error + NotebookEditorWidget option"

subsection \<open>Methods\<close>

definition record_call :: "call \<Rightarrow> NotebookEditor \<Rightarrow> NotebookEditor" where
  "record_call c this = this\<lparr>calls := calls this @ [c]\<rparr>"

text \<open>\<^verbatim>\<open>saveEditorViewState\<close> (lines 194-199).\<close>

definition saveEditorViewState :: "NotebookEditor \<Rightarrow> NotebookEditorInput \<Rightarrow> NotebookEditor" where
  "saveEditorViewState this inp =
     (case group this of
        None \<Rightarrow> this
      | Some g \<Rightarrow>
          (case widget this of
             None \<Rightarrow> this
           | Some w \<Rightarrow>
               record_call (SaveEditorState g (resource inp) (editorViewState w))
                 ((record_call (GetEditorViewState (widgetId w)) this)
                    \<lparr>editorMemento :=
                       saveEditorState (editorMemento this) g (resource inp) (editorViewState w)\<rparr>)))"

text \<open>\<^verbatim>\<open>loadTextEditorViewState\<close> (lines 201-207).\<close>

definition loadTextEditorViewState ::
  "NotebookEditor \<Rightarrow> NotebookEditorInput \<Rightarrow> INotebookEditorViewState option" where
  "loadTextEditorViewState this inp =
     (case group this of
        Some g \<Rightarrow> loadEditorState (editorMemento this) g (resource inp)
      | None \<Rightarrow> None)"

text \<open>The test \<^verbatim>\<open>this.input instanceof NotebookEditorInput\<close>, then the save.\<close>

definition save_if_notebook :: "NotebookEditor \<Rightarrow> NotebookEditor" where
  "save_if_notebook this =
     (case input this of
        Some (Notebook n) \<Rightarrow> saveEditorViewState this n
      | _ \<Rightarrow> this)"

text \<open>\<^verbatim>\<open>onWillHide\<close> (lines 100-109).\<close>

definition onWillHide :: "NotebookEditor \<Rightarrow> NotebookEditor" where
  "onWillHide this =
     (let this1 = save_if_notebook this;
          this2 = (case input this1 of
                     None \<Rightarrow> this1
                   | Some _ \<Rightarrow>
                       (case widget this1 of
                          None \<Rightarrow> this1
                        | Some w \<Rightarrow> record_call (OnWillHide (widgetId w)) this1))
      in BaseEditor_onWillHide this2)"

text \<open>
  \<^verbatim>\<open>setEditorVisible\<close> (lines 111-114); the listener it installs on the group calls
  \<^verbatim>\<open>onWillCloseEditorInGroup\<close> below.
\<close>

definition setEditorVisible :: "NotebookEditor \<Rightarrow> bool \<Rightarrow> IEditorGroup option \<Rightarrow> NotebookEditor" where
  "setEditorVisible this visible g = BaseEditor_setEditorVisible this visible g"

text \<open>
  \<^verbatim>\<open>onWillCloseEditorInGroup\<close> (lines 116-125), on the editor of the close event.
\<close>

definition onWillCloseEditorInGroup :: "NotebookEditor \<Rightarrow> EditorInput \<Rightarrow> NotebookEditor" where
  "onWillCloseEditorInGroup this editor =
     (case editor of
        OtherInput _ \<Rightarrow> this
      | Notebook n \<Rightarrow>
          if Some editor = input this then saveEditorViewState this n else this)"

text \<open>
  \<^verbatim>\<open>setInput\<close> (lines 132-185) is \<^verbatim>\<open>async\<close>. It runs in four stretches, separated
  by its three \<^verbatim>\<open>await\<close>s, and each stretch is one function here. Between two
  stretches other calls on the pane may run, so a later stretch takes the pane as it is
  when the call resumes, together with what the call captured when it started: its
  arguments and the constant \<^verbatim>\<open>group\<close>.

  First stretch (lines 134-141): the save for the outgoing input, then the base class
  stores the new input. Its promise is already resolved.
\<close>

definition setInput_begin ::
  "NotebookEditor \<Rightarrow> NotebookEditorInput \<Rightarrow> EditorOptions option \<Rightarrow> CancellationToken \<Rightarrow>
     NotebookEditor" where
  "setInput_begin this inp opts token =
     BaseEditor_setInput (save_if_notebook this) (Notebook inp) opts token"

text \<open>
  Second stretch (lines 143-157), up to the call of \<^verbatim>\<open>input.resolve\<close>. The
  non-null assertions on \<^verbatim>\<open>this._widget.value\<close> are property accesses on
  \<^verbatim>\<open>undefined\<close> when the borrow is empty: a \<^verbatim>\<open>TypeError\<close>, at line 154 or 157.
\<close>

definition setInput_retrieve ::
  "retrieveWidget \<Rightarrow> NotebookEditor \<Rightarrow> IEditorGroup option \<Rightarrow> NotebookEditorInput \<Rightarrow>
     completion \<times> NotebookEditor" where
  "setInput_retrieve pool this g inp =
     (let this1 = this\<lparr>widgetDisposableStore := []\<rparr>;
          this2 = (case widget this1 of
                     None \<Rightarrow> this1
                   | Some w \<Rightarrow> record_call (OnWillHide (widgetId w)) this1);
          this3 = record_call (RetrieveWidget g inp) this2
      in case pool g inp of
           Inl e \<Rightarrow> (Threw e, this3)
         | Inr None \<Rightarrow> (Threw TypeError, this3\<lparr>widget := None\<rparr>)
         | Inr (Some w) \<Rightarrow>
             (let this4 = this3\<lparr>widget := Some w\<rparr>;
                  this5 = (case dimension this4 of
                             None \<Rightarrow> this4
                           | Some d \<Rightarrow> record_call (WidgetLayout (widgetId w) d) this4)
              in (Awaiting, record_call (Resolve inp (widgetId w)) this5)))"

text \<open>
  The first two stretches with nothing in between: the call from its start to the
  point where it waits for the document.
\<close>

definition setInput_start ::
  "retrieveWidget \<Rightarrow> NotebookEditor \<Rightarrow> NotebookEditorInput \<Rightarrow> EditorOptions option \<Rightarrow>
     CancellationToken \<Rightarrow> completion \<times> NotebookEditor" where
  "setInput_start pool this inp opts token =
     setInput_retrieve pool (setInput_begin this inp opts token) (group this) inp"

text \<open>
  Third stretch (lines 159-177): the call resumes with the result of
  \<^verbatim>\<open>input.resolve\<close>, \<open>None\<close> for \<^verbatim>\<open>null\<close>, and runs up to the call of
  \<^verbatim>\<open>setModel\<close>. The token is in scope and is not read. When \<^verbatim>\<open>input.resolve\<close>
  rejects instead, the call ends at the \<^verbatim>\<open>await\<close> and no later stretch runs.
\<close>

definition setInput_resolved ::
  "NotebookEditor \<Rightarrow> NotebookEditorInput \<Rightarrow> EditorOptions option \<Rightarrow> CancellationToken \<Rightarrow>
     NotebookEditorModel option \<Rightarrow> completion \<times> NotebookEditor" where
  "setInput_resolved this inp opts token model =
     (case model of
        None \<Rightarrow>
          (Returned,
           record_call
             (Prompt Error ''fail.noEditor''
                [\<lparr>label = ''fail.reOpen'', runForceFile = resource inp,
                  runOptions = \<lparr>spread = opts, override = False\<rparr>\<rparr>])
             this)
      | Some m \<Rightarrow>
          (let viewState = loadTextEditorViewState this inp
           in case widget this of
                None \<Rightarrow> (Threw TypeError, this)
              | Some w \<Rightarrow>
                  (Awaiting, record_call (SetModel (widgetId w) (notebook m) viewState opts) this)))"

text \<open>Fourth stretch (lines 178-184), after \<^verbatim>\<open>setModel\<close> has completed.\<close>

definition setInput_modelSet :: "NotebookEditor \<Rightarrow> completion \<times> NotebookEditor" where
  "setInput_modelSet this =
     (case widget this of
        None \<Rightarrow> (Threw TypeError, this)
      | Some w \<Rightarrow>
          (let this1 = (record_call (OnDidFocus (widgetId w)) this)
                         \<lparr>widgetDisposableStore :=
                            widgetDisposableStore this @ [FocusListener (widgetId w)]\<rparr>
           in if isEditorPart this1
              then (Returned,
                    (record_call (CreateEditorDropTarget (widgetId w)) this1)
                      \<lparr>widgetDisposableStore :=
                         widgetDisposableStore this1 @ [EditorDropTarget (widgetId w)]\<rparr>)
              else (Returned, this1)))"

text \<open>The whole call when nothing else runs while it waits.\<close>

definition setInput ::
  "retrieveWidget \<Rightarrow> NotebookEditor \<Rightarrow> NotebookEditorInput \<Rightarrow> EditorOptions option \<Rightarrow>
     CancellationToken \<Rightarrow> NotebookEditorModel option \<Rightarrow> completion \<times> NotebookEditor" where
  "setInput pool this inp opts token model =
     (case setInput_start pool this inp opts token of
        (Awaiting, this1) \<Rightarrow>
          (case setInput_resolved this1 inp opts token model of
             (Awaiting, this2) \<Rightarrow> setInput_modelSet this2
           | r \<Rightarrow> r)
      | r \<Rightarrow> r)"

text \<open>\<^verbatim>\<open>clearInput\<close> (lines 187-192).\<close>

definition clearInput :: "NotebookEditor \<Rightarrow> NotebookEditor" where
  "clearInput this =
     BaseEditor_clearInput
       (case widget this of
          None \<Rightarrow> this
        | Some w \<Rightarrow> record_call (OnWillHide (widgetId w)) this)"

text \<open>
  \<^verbatim>\<open>layout\<close> (lines 209-229). The second test returns when the widget has a view
  model and its uri differs from the input's resource.
\<close>

definition layout :: "NotebookEditor \<Rightarrow> Dimension \<Rightarrow> NotebookEditor" where
  "layout this dim =
     (let this1 = this\<lparr>midWidth := (width dim < 1000 \<and> width dim \<ge> 600),
                       narrowWidth := (width dim < 600),
                       dimension := Some dim\<rparr>
      in case widget this1 of
           None \<Rightarrow> this1
         | Some w \<Rightarrow>
             (case input this1 of
                Some (Notebook n) \<Rightarrow>
                  (case viewModel w of
                     None \<Rightarrow> record_call (WidgetLayout (widgetId w) dim) this1
                   | Some vm \<Rightarrow>
                       if resource n \<noteq> uri vm then this1
                       else record_call (WidgetLayout (widgetId w) dim) this1)
              | _ \<Rightarrow> this1))"

text \<open>\<^verbatim>\<open>saveState\<close> (lines 231-237).\<close>

definition saveState :: "NotebookEditor \<Rightarrow> NotebookEditor" where
  "saveState this = BaseEditor_saveState (save_if_notebook this)"

subsection \<open>A concrete pane\<close>

text \<open>
  The scenario used to evaluate the methods: group 1, two notebook inputs
  \<^verbatim>\<open>doc://A\<close> and \<^verbatim>\<open>doc://B\<close>, and a pool that keeps one widget per resource.
\<close>

definition docA :: NotebookEditorInput where
  "docA = \<lparr>inputId = 1, resource = ''doc://A'', viewType = ''notebook''\<rparr>"

definition docB :: NotebookEditorInput where
  "docB = \<lparr>inputId = 2, resource = ''doc://B'', viewType = ''notebook''\<rparr>"

definition widgetA :: NotebookEditorWidget where
  "widgetA = \<lparr>widgetId = 1, viewModel = None, editorViewState = ViewState 7\<rparr>"

definition widgetB :: NotebookEditorWidget where
  "widgetB = \<lparr>widgetId = 2, viewModel = None, editorViewState = ViewState 0\<rparr>"

definition examplePool :: retrieveWidget where
  "examplePool g inp =
     (if resource inp = ''doc://A'' then Inr (Some widgetA) else Inr (Some widgetB))"

definition modelA :: NotebookEditorModel where
  "modelA = NotebookEditorModel \<lparr>notebookUri = ''doc://A'', notebookHandle = 1\<rparr>"

definition tokenLive :: CancellationToken where
  "tokenLive = \<lparr>isCancellationRequested = False\<rparr>"

definition tokenCancelled :: CancellationToken where
  "tokenCancelled = \<lparr>isCancellationRequested = True\<rparr>"

definition size800 :: Dimension where
  "size800 = \<lparr>width = 800, height = 600\<rparr>"

text \<open>A fresh pane shown in group 1.\<close>

definition paneEmpty :: NotebookEditor where
  "paneEmpty =
     \<lparr>input = None, options = None, group = Some 1, widget = None, dimension = None,
      widgetDisposableStore = [], midWidth = False, narrowWidth = False,
      editorMemento = Map.empty, isEditorPart = False, calls = []\<rparr>"

text \<open>The pane while \<^verbatim>\<open>setInput(docA)\<close> waits for its document.\<close>

definition paneA :: NotebookEditor where
  "paneA = snd (setInput_start examplePool paneEmpty docA None tokenLive)"

text \<open>The pane after \<^verbatim>\<open>setInput(docB)\<close> has started as well, before either resolves.\<close>

definition paneAB :: NotebookEditor where
  "paneAB = snd (setInput_start examplePool paneA docB None tokenLive)"

text \<open>
  The pane showing \<^verbatim>\<open>docA\<close> after its borrow has been taken back:
  \<^verbatim>\<open>this._widget.value\<close> is \<^verbatim>\<open>undefined\<close>.
\<close>

definition paneNoWidget :: NotebookEditor where
  "paneNoWidget = paneA\<lparr>widget := None\<rparr>"

text \<open>
  The pane showing \<^verbatim>\<open>docA\<close> is hidden and then given \<^verbatim>\<open>docA\<close> again: the pane
  while this second \<^verbatim>\<open>setInput(docA)\<close> waits for its document.
\<close>

definition paneReopened :: NotebookEditor where
  "paneReopened = snd (setInput_start examplePool (onWillHide paneA) docA None tokenLive)"

text \<open>
  A pane whose input is \<^verbatim>\<open>docB\<close> while the widget it holds still shows the document
  of \<^verbatim>\<open>docA\<close>.
\<close>

definition paneStale :: NotebookEditor where
  "paneStale =
     paneAB\<lparr>widget := Some (widgetA\<lparr>viewModel := Some \<lparr>uri = ''doc://A'', handle = 1\<rparr>\<rparr>)\<rparr>"

text \<open>
  The pane showing \<^verbatim>\<open>docA\<close> after \<^verbatim>\<open>setEditorVisible(false, undefined)\<close>: it has
  its input and its widget, and no group.
\<close>

definition paneNoGroup :: NotebookEditor where
  "paneNoGroup = setEditorVisible paneA False None"

text \<open>
  The pane between the first two stretches of \<^verbatim>\<open>setInput(docB)\<close>, when a
  \<^verbatim>\<open>layout\<close> runs while the call waits at line 141.
\<close>

definition paneBetween :: NotebookEditor where
  "paneBetween = layout (setInput_begin paneA docB None tokenLive) size800"

section \<open>Properties\<close>

subsection \<open>Evaluating the scenario\<close>

lemma paneA_eq:
  "paneA =
     \<lparr>input = Some (Notebook docA), options = None, group = Some 1, widget = Some widgetA,
      dimension = None, widgetDisposableStore = [], midWidth = False, narrowWidth = False,
      editorMemento = Map.empty, isEditorPart = False,
      calls = [RetrieveWidget (Some 1) docA, Resolve docA 1]\<rparr>"
  by (simp add: paneA_def setInput_start_def setInput_begin_def setInput_retrieve_def
      save_if_notebook_def BaseEditor_setInput_def record_call_def examplePool_def
      paneEmpty_def docA_def widgetA_def)

lemma paneAB_eq:
  "paneAB =
     \<lparr>input = Some (Notebook docB), options = None, group = Some 1, widget = Some widgetB,
      dimension = None, widgetDisposableStore = [], midWidth = False, narrowWidth = False,
      editorMemento = [(1, ''doc://A'') \<mapsto> ViewState 7], isEditorPart = False,
      calls = [RetrieveWidget (Some 1) docA, Resolve docA 1,
               GetEditorViewState 1, SaveEditorState 1 ''doc://A'' (ViewState 7),
               OnWillHide 1, RetrieveWidget (Some 1) docB, Resolve docB 2]\<rparr>"
  by (simp add: paneAB_def paneA_eq setInput_start_def setInput_begin_def
      setInput_retrieve_def save_if_notebook_def saveEditorViewState_def saveEditorState_def
      BaseEditor_setInput_def record_call_def examplePool_def docA_def docB_def widgetA_def
      widgetB_def)

lemma paneReopened_eq:
  "paneReopened =
     \<lparr>input = Some (Notebook docA), options = None, group = Some 1, widget = Some widgetA,
      dimension = None, widgetDisposableStore = [], midWidth = False, narrowWidth = False,
      editorMemento = [(1, ''doc://A'') \<mapsto> ViewState 7], isEditorPart = False,
      calls = [RetrieveWidget (Some 1) docA, Resolve docA 1,
               GetEditorViewState 1, SaveEditorState 1 ''doc://A'' (ViewState 7), OnWillHide 1,
               GetEditorViewState 1, SaveEditorState 1 ''doc://A'' (ViewState 7), OnWillHide 1,
               RetrieveWidget (Some 1) docA, Resolve docA 1]\<rparr>"
  by (simp add: paneReopened_def paneA_eq onWillHide_def BaseEditor_onWillHide_def
      setInput_start_def setInput_begin_def setInput_retrieve_def save_if_notebook_def
      saveEditorViewState_def saveEditorState_def BaseEditor_setInput_def record_call_def
      examplePool_def docA_def widgetA_def)

lemma paneNoGroup_eq:
  "paneNoGroup =
     \<lparr>input = Some (Notebook docA), options = None, group = None, widget = Some widgetA,
      dimension = None, widgetDisposableStore = [], midWidth = False, narrowWidth = False,
      editorMemento = Map.empty, isEditorPart = False,
      calls = [RetrieveWidget (Some 1) docA, Resolve docA 1]\<rparr>"
  by (simp add: paneNoGroup_def setEditorVisible_def BaseEditor_setEditorVisible_def paneA_eq)

lemma paneBetween_eq:
  "paneBetween =
     \<lparr>input = Some (Notebook docB), options = None, group = Some 1, widget = Some widgetA,
      dimension = Some size800, widgetDisposableStore = [], midWidth = True,
      narrowWidth = False,
      editorMemento = [(1, ''doc://A'') \<mapsto> ViewState 7], isEditorPart = False,
      calls = [RetrieveWidget (Some 1) docA, Resolve docA 1,
               GetEditorViewState 1, SaveEditorState 1 ''doc://A'' (ViewState 7),
               WidgetLayout 1 size800]\<rparr>"
  by (simp add: paneBetween_def paneA_eq setInput_begin_def save_if_notebook_def
      saveEditorViewState_def saveEditorState_def BaseEditor_setInput_def layout_def
      record_call_def docA_def widgetA_def size800_def)

subsection \<open>The save helper\<close>

lemma saveEditorViewState_skip:
  "group this = None \<or> widget this = None \<Longrightarrow> saveEditorViewState this inp = this"
  by (auto simp: saveEditorViewState_def split: option.splits)

lemma saveEditorViewState_write:
  "group this = Some g \<Longrightarrow> widget this = Some w \<Longrightarrow>
   saveEditorViewState this inp =
     this\<lparr>editorMemento := (editorMemento this)((g, resource inp) \<mapsto> editorViewState w),
          calls := calls this @ [GetEditorViewState (widgetId w),
                                 SaveEditorState g (resource inp) (editorViewState w)]\<rparr>"
  by (simp add: saveEditorViewState_def saveEditorState_def record_call_def)

lemma save_if_notebook_skip:
  "group this = None \<or> widget this = None \<Longrightarrow> save_if_notebook this = this"
  by (simp add: save_if_notebook_def saveEditorViewState_skip
      split: option.splits EditorInput.splits)

text \<open>
  C10. Every path that saves view state goes through \<open>saveEditorViewState\<close>, which
  asks the widget for its state and writes the store only when the pane has both a
  group and a borrowed widget. When either is missing, \<open>saveState\<close>,
  \<open>onWillCloseEditorInGroup\<close> and the save at the start of \<open>setInput\<close> leave the pane
  as it is, \<open>onWillHide\<close> does no more than tell the widget it is hidden, and the store
  is unchanged up to the point where \<open>setInput\<close> waits for its document.
\<close>

theorem save_paths_need_group_and_widget:
  assumes "group this = None \<or> widget this = None"
  shows "saveEditorViewState this inp = this
       \<and> saveState this = this
       \<and> onWillCloseEditorInGroup this editor = this
       \<and> onWillHide this =
           (case input this of
              None \<Rightarrow> this
            | Some _ \<Rightarrow>
                (case widget this of
                   None \<Rightarrow> this
                 | Some w \<Rightarrow> this\<lparr>calls := calls this @ [OnWillHide (widgetId w)]\<rparr>))
       \<and> setInput_begin this inp opts token = this\<lparr>input := Some (Notebook inp), options := opts\<rparr>
       \<and> editorMemento (snd (setInput_start pool this inp opts token)) = editorMemento this"
proof -
  have skip: "save_if_notebook this = this"
    using assms by (rule save_if_notebook_skip)
  have helper: "saveEditorViewState this inp = this"
    using assms by (rule saveEditorViewState_skip)
  have persist: "saveState this = this"
    by (simp add: saveState_def BaseEditor_saveState_def skip)
  have closing: "onWillCloseEditorInGroup this editor = this"
    using assms
    by (simp add: onWillCloseEditorInGroup_def saveEditorViewState_skip split: EditorInput.splits)
  have hiding: "onWillHide this =
      (case input this of
         None \<Rightarrow> this
       | Some _ \<Rightarrow>
           (case widget this of
              None \<Rightarrow> this
            | Some w \<Rightarrow> this\<lparr>calls := calls this @ [OnWillHide (widgetId w)]\<rparr>))"
    by (simp add: onWillHide_def skip BaseEditor_onWillHide_def record_call_def
        split: option.splits)
  have first: "setInput_begin this inp opts token = this\<lparr>input := Some (Notebook inp), options := opts\<rparr>"
    by (simp add: setInput_begin_def skip BaseEditor_setInput_def)
  have start: "editorMemento (snd (setInput_start pool this inp opts token)) = editorMemento this"
    by (simp add: setInput_start_def first setInput_retrieve_def record_call_def Let_def
        split: option.splits sum.splits)
  from helper persist closing hiding first start show ?thesis by blast
qed

theorem save_paths_need_group_and_widget_witness:
  "(group paneNoWidget = None \<or> widget paneNoWidget = None)
   \<and> input paneNoWidget = Some (Notebook docA)
   \<and> saveState paneNoWidget = paneNoWidget
   \<and> onWillCloseEditorInGroup paneNoWidget (Notebook docA) = paneNoWidget
   \<and> onWillHide paneNoWidget = paneNoWidget
   \<and> editorMemento (snd (setInput_start examplePool paneNoWidget docB None tokenLive)) = Map.empty"
proof -
  have h: "group paneNoWidget = None \<or> widget paneNoWidget = None"
    by (simp add: paneNoWidget_def)
  show ?thesis
    using h save_paths_need_group_and_widget [OF h, of docB "Notebook docA" None tokenLive examplePool]
    by (simp add: paneNoWidget_def paneA_eq)
qed

text \<open>
  C9. \<open>clearInput\<close> tells the borrowed widget, when there is one, that it is hidden,
  leaves the pane without an input, and does not touch the view-state store: the one
  call it makes is \<^verbatim>\<open>onWillHide\<close> on the widget, and the store after it is the store
  before it, in every state of the pane.
\<close>

theorem clearInput_hides_and_keeps_store:
  "calls (clearInput this) =
     calls this @ (case widget this of None \<Rightarrow> [] | Some w \<Rightarrow> [OnWillHide (widgetId w)])
   \<and> input (clearInput this) = None
   \<and> editorMemento (clearInput this) = editorMemento this"
  by (simp add: clearInput_def BaseEditor_clearInput_def record_call_def split: option.splits)

theorem clearInput_hides_and_keeps_store_witness:
  "calls (clearInput paneAB) = calls paneAB @ [OnWillHide 2]
   \<and> input (clearInput paneAB) = None
   \<and> editorMemento (clearInput paneAB) (1, ''doc://A'') = Some (ViewState 7)"
  using clearInput_hides_and_keeps_store [of paneAB]
  by (simp add: paneAB_eq widgetB_def)

subsection \<open>Switching inputs\<close>

lemma setInput_begin_store:
  "input this = Some (Notebook A) \<Longrightarrow> widget this = Some w \<Longrightarrow> group this = Some g \<Longrightarrow>
   setInput_begin this B opts token =
     this\<lparr>input := Some (Notebook B), options := opts,
          editorMemento := (editorMemento this)((g, resource A) \<mapsto> editorViewState w),
          calls := calls this @ [GetEditorViewState (widgetId w),
                                 SaveEditorState g (resource A) (editorViewState w)]\<rparr>"
  by (simp add: setInput_begin_def save_if_notebook_def saveEditorViewState_write
      BaseEditor_setInput_def)

lemma setInput_retrieve_calls:
  "calls (snd (setInput_retrieve pool this g B)) =
     calls this @ (case widget this of None \<Rightarrow> [] | Some w \<Rightarrow> [OnWillHide (widgetId w)])
       @ [RetrieveWidget g B]
       @ (case pool g B of
            Inr (Some w') \<Rightarrow>
              (case dimension this of None \<Rightarrow> [] | Some d \<Rightarrow> [WidgetLayout (widgetId w') d])
                @ [Resolve B (widgetId w')]
          | _ \<Rightarrow> [])"
  by (simp add: setInput_retrieve_def record_call_def Let_def split: option.splits sum.splits)

lemma setInput_retrieve_store:
  "editorMemento (snd (setInput_retrieve pool this g B)) = editorMemento this"
  "group (snd (setInput_retrieve pool this g B)) = group this"
  "input (snd (setInput_retrieve pool this g B)) = input this"
  by (simp_all add: setInput_retrieve_def record_call_def Let_def split: option.splits sum.splits)

lemma setInput_resolved_calls:
  "\<exists>rest. calls (snd (setInput_resolved this inp opts token model)) = calls this @ rest"
  by (simp add: setInput_resolved_def record_call_def Let_def split: option.splits)

lemma setInput_modelSet_calls:
  "\<exists>rest. calls (snd (setInput_modelSet this)) = calls this @ rest"
  by (simp add: setInput_modelSet_def record_call_def Let_def split: option.splits)

lemma setInput_extends_start:
  "\<exists>rest. calls (snd (setInput pool this B opts token model)) =
     calls (snd (setInput_start pool this B opts token)) @ rest"
proof (cases "setInput_start pool this B opts token")
  case (Pair c this1)
  show ?thesis
  proof (cases c)
    case Awaiting
    obtain c2 this2 where r: "setInput_resolved this1 B opts token model = (c2, this2)"
      by (cases "setInput_resolved this1 B opts token model")
    obtain r1 where r1: "calls this2 = calls this1 @ r1"
      using setInput_resolved_calls [of this1 B opts token model] r by auto
    show ?thesis
    proof (cases c2)
      case Awaiting
      obtain r2 where "calls (snd (setInput_modelSet this2)) = calls this2 @ r2"
        using setInput_modelSet_calls [of this2] by blast
      with r1 Pair \<open>c = Awaiting\<close> r Awaiting show ?thesis
        by (simp add: setInput_def)
    next
      case Returned
      with r1 Pair \<open>c = Awaiting\<close> r show ?thesis by (simp add: setInput_def)
    next
      case (Threw e)
      with r1 Pair \<open>c = Awaiting\<close> r show ?thesis by (simp add: setInput_def)
    qed
  next
    case Returned
    with Pair show ?thesis by (simp add: setInput_def)
  next
    case (Threw e)
    with Pair show ?thesis by (simp add: setInput_def)
  qed
qed

text \<open>
  C3, as the claim states it, fails. The pane shows the notebook input \<^verbatim>\<open>docA\<close>,
  holds its widget and has no group. \<^verbatim>\<open>setInput(docB)\<close> hides the widget and
  retrieves another, and nothing is saved for \<^verbatim>\<open>docA\<close>: the store is empty and
  there is nothing to load.
\<close>

theorem setInput_without_group_counterexample:
  "input paneNoGroup = Some (Notebook docA) \<and> widget paneNoGroup = Some widgetA
   \<and> group paneNoGroup = None
   \<and> calls (snd (setInput_start examplePool paneNoGroup docB None tokenLive)) =
       calls paneNoGroup @ [OnWillHide 1, RetrieveWidget None docB, Resolve docB 2]
   \<and> editorMemento (snd (setInput_start examplePool paneNoGroup docB None tokenLive)) = Map.empty
   \<and> loadTextEditorViewState (snd (setInput_start examplePool paneNoGroup docB None tokenLive)) docA
       = None"
  by (simp add: paneNoGroup_eq setInput_start_def setInput_begin_def save_if_notebook_def
      saveEditorViewState_def BaseEditor_setInput_def setInput_retrieve_def record_call_def
      examplePool_def loadTextEditorViewState_def docB_def widgetA_def widgetB_def)

text \<open>
  C3, amended. \<open>setInput\<close> for an input B starts on a pane whose current input A is a
  notebook input, with a borrowed widget, and which has a group g. The first stretch
  asks the widget for its view state and writes it to the store under (g, A's
  resource), where it is loaded from at once; it makes no other call. The call then
  waits at line 141. Whatever runs meanwhile, the second stretch adds its calls after
  the save and after what ran in between: the widget the pane then holds is told it is
  hidden, a widget is retrieved for B, laid out, and its document requested; the
  second stretch does not write the store. The third stretch, which calls
  \<^verbatim>\<open>setModel\<close>, adds its calls after those already made. With nothing in between,
  the calls up to the wait for the document are: view state asked, store written,
  widget hidden, widget retrieved, layout, resolve.
\<close>

theorem setInput_saves_before_hide:
  assumes "input this = Some (Notebook A)" and "widget this = Some w" and "group this = Some g"
  shows "setInput_begin this B opts token =
           this\<lparr>input := Some (Notebook B), options := opts,
                editorMemento := (editorMemento this)((g, resource A) \<mapsto> editorViewState w),
                calls := calls this @ [GetEditorViewState (widgetId w),
                                       SaveEditorState g (resource A) (editorViewState w)]\<rparr>
       \<and> loadTextEditorViewState (setInput_begin this B opts token) A = Some (editorViewState w)
       \<and> (calls mid = calls (setInput_begin this B opts token) @ between \<longrightarrow>
            calls (snd (setInput_retrieve pool mid (Some g) B)) =
              calls this @ [GetEditorViewState (widgetId w),
                            SaveEditorState g (resource A) (editorViewState w)]
                @ between
                @ (case widget mid of None \<Rightarrow> [] | Some v \<Rightarrow> [OnWillHide (widgetId v)])
                @ [RetrieveWidget (Some g) B]
                @ (case pool (Some g) B of
                     Inr (Some w') \<Rightarrow>
                       (case dimension mid of None \<Rightarrow> [] | Some d \<Rightarrow> [WidgetLayout (widgetId w') d])
                         @ [Resolve B (widgetId w')]
                   | _ \<Rightarrow> []))
       \<and> editorMemento (snd (setInput_retrieve pool mid (Some g) B)) = editorMemento mid
       \<and> (\<exists>rest. calls (snd (setInput_resolved later B opts token model)) = calls later @ rest)
       \<and> calls (snd (setInput_start pool this B opts token)) =
           calls this @ [GetEditorViewState (widgetId w),
                         SaveEditorState g (resource A) (editorViewState w),
                         OnWillHide (widgetId w),
                         RetrieveWidget (Some g) B]
             @ (case pool (Some g) B of
                  Inr (Some w') \<Rightarrow>
                    (case dimension this of None \<Rightarrow> [] | Some d \<Rightarrow> [WidgetLayout (widgetId w') d])
                      @ [Resolve B (widgetId w')]
                | _ \<Rightarrow> [])
       \<and> editorMemento (setInput_begin this B opts token) (g, resource A) = Some (editorViewState w)
       \<and> loadTextEditorViewState (snd (setInput_start pool this B opts token)) A
           = Some (editorViewState w)
       \<and> (\<exists>rest. calls (snd (setInput pool this B opts token model)) =
             calls (snd (setInput_start pool this B opts token)) @ rest)"
proof -
  note b = setInput_begin_store [OF assms]
  have lb: "loadTextEditorViewState (setInput_begin this B opts token) A = Some (editorViewState w)"
    using assms by (simp add: b loadTextEditorViewState_def loadEditorState_def)
  have split: "calls mid = calls (setInput_begin this B opts token) @ between \<longrightarrow>
      calls (snd (setInput_retrieve pool mid (Some g) B)) =
        calls this @ [GetEditorViewState (widgetId w),
                      SaveEditorState g (resource A) (editorViewState w)]
          @ between
          @ (case widget mid of None \<Rightarrow> [] | Some v \<Rightarrow> [OnWillHide (widgetId v)])
          @ [RetrieveWidget (Some g) B]
          @ (case pool (Some g) B of
               Inr (Some w') \<Rightarrow>
                 (case dimension mid of None \<Rightarrow> [] | Some d \<Rightarrow> [WidgetLayout (widgetId w') d])
                   @ [Resolve B (widgetId w')]
             | _ \<Rightarrow> [])"
    by (simp add: setInput_retrieve_calls b)
  have ms: "editorMemento (snd (setInput_retrieve pool mid (Some g) B)) = editorMemento mid"
    by (rule setInput_retrieve_store(1))
  have c: "calls (snd (setInput_start pool this B opts token)) =
           calls this @ [GetEditorViewState (widgetId w),
                         SaveEditorState g (resource A) (editorViewState w),
                         OnWillHide (widgetId w),
                         RetrieveWidget (Some g) B]
             @ (case pool (Some g) B of
                  Inr (Some w') \<Rightarrow>
                    (case dimension this of None \<Rightarrow> [] | Some d \<Rightarrow> [WidgetLayout (widgetId w') d])
                      @ [Resolve B (widgetId w')]
                | _ \<Rightarrow> [])"
    using assms
    by (simp add: setInput_start_def setInput_retrieve_calls b split: sum.splits option.splits)
  have s: "editorMemento (setInput_begin this B opts token) (g, resource A) = Some (editorViewState w)"
    by (simp add: b)
  have l: "loadTextEditorViewState (snd (setInput_start pool this B opts token)) A
           = Some (editorViewState w)"
    using assms
    by (simp add: loadTextEditorViewState_def loadEditorState_def setInput_start_def
        setInput_retrieve_store b)
  from b lb split ms setInput_resolved_calls [of later B opts token model] c s l
    setInput_extends_start [of pool this B opts token model]
  show ?thesis by blast
qed

theorem setInput_saves_before_hide_witness:
  "input paneA = Some (Notebook docA) \<and> widget paneA = Some widgetA \<and> group paneA = Some 1
   \<and> calls paneBetween = calls (setInput_begin paneA docB None tokenLive) @ [WidgetLayout 1 size800]
   \<and> calls (snd (setInput_retrieve examplePool paneBetween (Some 1) docB)) =
       [RetrieveWidget (Some 1) docA, Resolve docA 1,
        GetEditorViewState 1, SaveEditorState 1 ''doc://A'' (ViewState 7),
        WidgetLayout 1 size800,
        OnWillHide 1, RetrieveWidget (Some 1) docB, WidgetLayout 2 size800, Resolve docB 2]
   \<and> calls (snd (setInput_start examplePool paneA docB None tokenLive)) =
       [RetrieveWidget (Some 1) docA, Resolve docA 1,
        GetEditorViewState 1, SaveEditorState 1 ''doc://A'' (ViewState 7),
        OnWillHide 1, RetrieveWidget (Some 1) docB, Resolve docB 2]
   \<and> loadTextEditorViewState (snd (setInput_start examplePool paneA docB None tokenLive)) docA
       = Some (ViewState 7)"
proof -
  have h: "input paneA = Some (Notebook docA)" "widget paneA = Some widgetA" "group paneA = Some 1"
    by (simp_all add: paneA_eq)
  have between: "calls paneBetween =
      calls (setInput_begin paneA docB None tokenLive) @ [WidgetLayout 1 size800]"
    by (simp add: paneBetween_eq paneA_eq setInput_begin_def save_if_notebook_def
        saveEditorViewState_def saveEditorState_def BaseEditor_setInput_def record_call_def
        docA_def widgetA_def)
  show ?thesis
    using h between
      setInput_saves_before_hide [OF h, of docB None tokenLive paneBetween
        "[WidgetLayout 1 size800]" examplePool paneBetween None]
    by (simp add: paneA_eq paneBetween_eq examplePool_def docA_def docB_def widgetA_def
        widgetB_def)
qed

subsection \<open>Resuming with the document\<close>

lemma setInput_resolved_model:
  "widget this = Some w \<Longrightarrow>
   setInput_resolved this inp opts token (Some m) =
     (Awaiting,
      this\<lparr>calls := calls this @
         [SetModel (widgetId w) (notebook m) (loadTextEditorViewState this inp) opts]\<rparr>)"
  by (simp add: setInput_resolved_def record_call_def)

lemma setInput_resolved_null:
  "setInput_resolved this inp opts token None =
     (Returned,
      this\<lparr>calls := calls this @
         [Prompt Error ''fail.noEditor''
            [\<lparr>label = ''fail.reOpen'', runForceFile = resource inp,
              runOptions = \<lparr>spread = opts, override = False\<rparr>\<rparr>]]\<rparr>)"
  by (simp add: setInput_resolved_def record_call_def)

text \<open>
  C7. Round trip through the store. The pane, in group g and holding a widget, saves
  that widget's view state S for an input whose resource is U. Later a \<open>setInput\<close> for
  an input with the same resource U resumes with its document, on a pane that is in
  group g, holds a widget, and whose store still has under (g, U) what the save put
  there. Then the view state it loads is S, and S is what it passes to \<^verbatim>\<open>setModel\<close>.
\<close>

theorem view_state_round_trip:
  assumes "group this = Some g" and "widget this = Some w"
    and "resource inp = resource saved"
    and "group later = Some g"
    and "editorMemento later (g, resource saved) =
           editorMemento (saveEditorViewState this saved) (g, resource saved)"
    and "widget later = Some w'"
  shows "loadTextEditorViewState later inp = Some (editorViewState w)
       \<and> setInput_resolved later inp opts token (Some m) =
           (Awaiting,
            later\<lparr>calls := calls later @
               [SetModel (widgetId w') (notebook m) (Some (editorViewState w)) opts]\<rparr>)"
proof -
  have saved: "editorMemento (saveEditorViewState this saved) (g, resource saved) =
      Some (editorViewState w)"
    using assms(1,2) by (simp add: saveEditorViewState_write)
  have load: "loadTextEditorViewState later inp = Some (editorViewState w)"
    using assms(3,4,5) saved by (simp add: loadTextEditorViewState_def loadEditorState_def)
  show ?thesis
    using load setInput_resolved_model [OF assms(6), of inp opts token m] by simp
qed

theorem view_state_round_trip_witness:
  "group paneA = Some 1 \<and> widget paneA = Some widgetA
   \<and> editorMemento paneReopened (1, ''doc://A'') =
       editorMemento (saveEditorViewState paneA docA) (1, ''doc://A'')
   \<and> group paneReopened = Some 1 \<and> widget paneReopened = Some widgetA
   \<and> setInput_resolved paneReopened docA None tokenLive (Some modelA) =
       (Awaiting,
        paneReopened\<lparr>calls := calls paneReopened @
           [SetModel 1 \<lparr>notebookUri = ''doc://A'', notebookHandle = 1\<rparr> (Some (ViewState 7)) None]\<rparr>)"
proof -
  have h: "group paneA = Some 1" "widget paneA = Some widgetA"
    "resource docA = resource docA"
    "group paneReopened = Some 1"
    "editorMemento paneReopened (1, resource docA) =
       editorMemento (saveEditorViewState paneA docA) (1, resource docA)"
    "widget paneReopened = Some widgetA"
    by (simp_all add: paneA_eq paneReopened_eq saveEditorViewState_def saveEditorState_def
        record_call_def docA_def widgetA_def)
  show ?thesis
    using h view_state_round_trip [OF h, of None tokenLive modelA]
    by (simp add: docA_def widgetA_def modelA_def)
qed

lemma saveEditorViewState_fields:
  "group (saveEditorViewState this inp) = group this"
  "widget (saveEditorViewState this inp) = widget this"
  "input (saveEditorViewState this inp) = input this"
  "dimension (saveEditorViewState this inp) = dimension this"
  by (simp_all add: saveEditorViewState_def record_call_def split: option.splits)

lemma save_if_notebook_fields:
  "group (save_if_notebook this) = group this"
  "widget (save_if_notebook this) = widget this"
  "input (save_if_notebook this) = input this"
  "dimension (save_if_notebook this) = dimension this"
  by (simp_all add: save_if_notebook_def saveEditorViewState_fields
      split: option.splits EditorInput.splits)

lemma setInput_start_Awaiting:
  assumes "setInput_start pool this inp opts token = (Awaiting, this1)"
  shows "\<exists>w. pool (group this) inp = Inr (Some w) \<and> widget this1 = Some w"
    and "input this1 = Some (Notebook inp)"
    and "group this1 = group this"
    and "options this1 = opts"
  using assms
  by (auto simp: setInput_start_def setInput_retrieve_def setInput_begin_def
      BaseEditor_setInput_def record_call_def Let_def save_if_notebook_fields
      split: sum.splits option.splits)

lemma setInput_resolved_store:
  "editorMemento (snd (setInput_resolved this inp opts token model)) = editorMemento this"
  by (simp add: setInput_resolved_def record_call_def Let_def split: option.splits)

lemma clearInput_fields:
  "widget (clearInput this) = widget this"
  "group (clearInput this) = group this"
  "editorMemento (clearInput this) = editorMemento this"
  by (simp_all add: clearInput_def BaseEditor_clearInput_def record_call_def split: option.splits)

text \<open>
  C1, as the claim states it, fails. \<^verbatim>\<open>setInput(docA)\<close> waits for its document,
  \<^verbatim>\<open>setInput(docB)\<close> starts and waits as well; then the first call resumes with the
  document of \<^verbatim>\<open>docA\<close>. The pane's input is \<^verbatim>\<open>docB\<close> and its widget is the one
  retrieved for \<^verbatim>\<open>docB\<close>, and the resumed call calls \<^verbatim>\<open>setModel\<close> on that widget
  with the notebook of \<^verbatim>\<open>docA\<close>.
\<close>

theorem stale_continuation_counterexample:
  "input paneAB = Some (Notebook docB) \<and> widget paneAB = Some widgetB
   \<and> setInput_resolved paneAB docA None tokenLive (Some modelA) =
       (Awaiting,
        paneAB\<lparr>calls := calls paneAB @
           [SetModel 2 \<lparr>notebookUri = ''doc://A'', notebookHandle = 1\<rparr> (Some (ViewState 7)) None]\<rparr>)"
  by (simp add: paneAB_eq setInput_resolved_def loadTextEditorViewState_def loadEditorState_def
      record_call_def docA_def widgetB_def modelA_def)

text \<open>
  C1, amended. \<open>setInput\<close> for A waits for its document, and before it resumes either
  \<open>setInput\<close> for B starts and comes to wait, or \<open>clearInput\<close> runs. The resumed call
  of A does not write the view-state store. It is not suppressed, though: resumed with
  a document, it calls \<^verbatim>\<open>setModel\<close>, with that document and the view state stored for
  A's resource, on the widget the pane holds at that moment, which is the widget
  retrieved for B, or after \<open>clearInput\<close> the hidden widget retrieved for A.
\<close>

theorem superseded_continuation_not_cancelled:
  assumes "setInput_start pool this0 A optsA tokenA = (Awaiting, this1)"
    and "setInput_start pool this1 B optsB tokenB = (Awaiting, this2)"
  shows "\<exists>wA wB. pool (group this0) A = Inr (Some wA) \<and> pool (group this1) B = Inr (Some wB)
       \<and> setInput_resolved this2 A optsA tokenA (Some m) =
           (Awaiting,
            this2\<lparr>calls := calls this2 @
               [SetModel (widgetId wB) (notebook m) (loadTextEditorViewState this2 A) optsA]\<rparr>)
       \<and> setInput_resolved (clearInput this1) A optsA tokenA (Some m) =
           (Awaiting,
            (clearInput this1)\<lparr>calls := calls (clearInput this1) @
               [SetModel (widgetId wA) (notebook m) (loadTextEditorViewState this1 A) optsA]\<rparr>)
       \<and> editorMemento (snd (setInput_resolved this2 A optsA tokenA model)) = editorMemento this2
       \<and> editorMemento (snd (setInput_resolved (clearInput this1) A optsA tokenA model)) =
           editorMemento this1"
proof -
  obtain wA where wA: "pool (group this0) A = Inr (Some wA)" "widget this1 = Some wA"
    using setInput_start_Awaiting(1) [OF assms(1)] by blast
  obtain wB where wB: "pool (group this1) B = Inr (Some wB)" "widget this2 = Some wB"
    using setInput_start_Awaiting(1) [OF assms(2)] by blast
  have cleared: "widget (clearInput this1) = Some wA"
    using wA(2) by (simp add: clearInput_fields)
  have same_load: "loadTextEditorViewState (clearInput this1) A = loadTextEditorViewState this1 A"
    by (simp add: loadTextEditorViewState_def clearInput_fields split: option.splits)
  have afterB: "setInput_resolved this2 A optsA tokenA (Some m) =
      (Awaiting,
       this2\<lparr>calls := calls this2 @
          [SetModel (widgetId wB) (notebook m) (loadTextEditorViewState this2 A) optsA]\<rparr>)"
    using wB(2) by (rule setInput_resolved_model)
  have afterClear: "setInput_resolved (clearInput this1) A optsA tokenA (Some m) =
      (Awaiting,
       (clearInput this1)\<lparr>calls := calls (clearInput this1) @
          [SetModel (widgetId wA) (notebook m) (loadTextEditorViewState this1 A) optsA]\<rparr>)"
    using setInput_resolved_model [OF cleared, of A optsA tokenA m] same_load by simp
  have store2: "editorMemento (snd (setInput_resolved this2 A optsA tokenA model)) = editorMemento this2"
    by (rule setInput_resolved_store)
  have store1: "editorMemento (snd (setInput_resolved (clearInput this1) A optsA tokenA model)) =
      editorMemento this1"
    by (simp add: setInput_resolved_store clearInput_fields)
  from wA(1) wB(1) afterB afterClear store2 store1 show ?thesis by blast
qed

theorem superseded_continuation_not_cancelled_witness:
  "setInput_start examplePool paneEmpty docA None tokenLive = (Awaiting, paneA)
   \<and> setInput_start examplePool paneA docB None tokenLive = (Awaiting, paneAB)
   \<and> calls (snd (setInput_resolved paneAB docA None tokenLive (Some modelA))) =
       calls paneAB @
         [SetModel 2 \<lparr>notebookUri = ''doc://A'', notebookHandle = 1\<rparr> (Some (ViewState 7)) None]
   \<and> calls (snd (setInput_resolved (clearInput paneA) docA None tokenLive (Some modelA))) =
       calls paneA @
         [OnWillHide 1, SetModel 1 \<lparr>notebookUri = ''doc://A'', notebookHandle = 1\<rparr> None None]"
proof -
  have a: "setInput_start examplePool paneEmpty docA None tokenLive = (Awaiting, paneA)"
    by (simp add: paneA_def setInput_start_def setInput_retrieve_def examplePool_def docA_def
        Let_def split: option.splits)
  have b: "setInput_start examplePool paneA docB None tokenLive = (Awaiting, paneAB)"
    by (simp add: paneAB_def setInput_start_def setInput_retrieve_def examplePool_def docB_def
        Let_def split: option.splits)
  show ?thesis
    using a b superseded_continuation_not_cancelled [OF a b, of modelA None]
    by (auto simp: examplePool_def docA_def docB_def widgetA_def widgetB_def modelA_def
        paneAB_eq paneA_eq loadTextEditorViewState_def loadEditorState_def clearInput_def
        BaseEditor_clearInput_def record_call_def)
qed

lemma paneA_start:
  "setInput_start examplePool paneEmpty docA None token = (Awaiting, paneA)"
  by (simp add: paneA_def setInput_start_def setInput_begin_def BaseEditor_setInput_def
      setInput_retrieve_def examplePool_def docA_def Let_def
      split: option.splits)

lemma paneAB_start:
  "setInput_start examplePool paneA docB None token = (Awaiting, paneAB)"
  by (simp add: paneAB_def setInput_start_def setInput_begin_def BaseEditor_setInput_def
      setInput_retrieve_def examplePool_def docB_def Let_def
      split: option.splits)

text \<open>
  C2, as the claim states it, fails. The pane shows \<^verbatim>\<open>docA\<close> and \<^verbatim>\<open>setInput(docB)\<close>
  resumes with \<^verbatim>\<open>null\<close>: the call prompts and returns, and the pane is not empty.
  Its input is \<^verbatim>\<open>docB\<close> and it holds the widget retrieved for \<^verbatim>\<open>docB\<close>.
\<close>

theorem no_handler_counterexample:
  "setInput examplePool paneA docB None tokenLive None =
     (Returned,
      paneAB\<lparr>calls := calls paneAB @
         [Prompt Error ''fail.noEditor''
            [\<lparr>label = ''fail.reOpen'', runForceFile = ''doc://B'',
              runOptions = \<lparr>spread = None, override = False\<rparr>\<rparr>]]\<rparr>)
   \<and> input (snd (setInput examplePool paneA docB None tokenLive None)) = Some (Notebook docB)
   \<and> widget (snd (setInput examplePool paneA docB None tokenLive None)) = Some widgetB"
proof -
  have whole: "setInput examplePool paneA docB None tokenLive None =
      (Returned,
       paneAB\<lparr>calls := calls paneAB @
          [Prompt Error ''fail.noEditor''
             [\<lparr>label = ''fail.reOpen'', runForceFile = resource docB,
               runOptions = \<lparr>spread = None, override = False\<rparr>\<rparr>]]\<rparr>)"
    by (simp add: setInput_def paneAB_start setInput_resolved_null)
  show ?thesis
    unfolding whole by (simp add: docB_def paneAB_eq)
qed

text \<open>
  C2, amended. When \<open>setInput\<close> has come to wait for its document and resumes with
  \<^verbatim>\<open>null\<close>, it returns without throwing, and the one call it makes is the
  prompt, of severity error, whose single choice reopens the input's resource in the
  text editor; \<^verbatim>\<open>setModel\<close> is not called. The pane is not left empty: the assigned
  input stays the current input and the widget retrieved for it stays borrowed.
\<close>

theorem no_handler_prompts_and_keeps_input:
  assumes "setInput_start pool this inp opts token = (Awaiting, this1)"
  shows "setInput pool this inp opts token None =
           (Returned,
            this1\<lparr>calls := calls this1 @
               [Prompt Error ''fail.noEditor''
                  [\<lparr>label = ''fail.reOpen'', runForceFile = resource inp,
                    runOptions = \<lparr>spread = opts, override = False\<rparr>\<rparr>]]\<rparr>)
       \<and> input (snd (setInput pool this inp opts token None)) = Some (Notebook inp)
       \<and> (\<exists>w. pool (group this) inp = Inr (Some w)
              \<and> widget (snd (setInput pool this inp opts token None)) = Some w)"
proof -
  have whole: "setInput pool this inp opts token None =
      (Returned,
       this1\<lparr>calls := calls this1 @
          [Prompt Error ''fail.noEditor''
             [\<lparr>label = ''fail.reOpen'', runForceFile = resource inp,
               runOptions = \<lparr>spread = opts, override = False\<rparr>\<rparr>]]\<rparr>)"
    by (simp add: setInput_def assms setInput_resolved_null)
  obtain w where w: "pool (group this) inp = Inr (Some w)" "widget this1 = Some w"
    using setInput_start_Awaiting(1) [OF assms] by blast
  have i: "input this1 = Some (Notebook inp)"
    using assms by (rule setInput_start_Awaiting(2))
  from whole w i show ?thesis by simp
qed

theorem no_handler_prompts_and_keeps_input_witness:
  "setInput_start examplePool paneA docB None tokenLive = (Awaiting, paneAB)
   \<and> fst (setInput examplePool paneA docB None tokenLive None) = Returned
   \<and> calls (snd (setInput examplePool paneA docB None tokenLive None)) =
       calls paneAB @
         [Prompt Error ''fail.noEditor''
            [\<lparr>label = ''fail.reOpen'', runForceFile = ''doc://B'',
              runOptions = \<lparr>spread = None, override = False\<rparr>\<rparr>]]
   \<and> input (snd (setInput examplePool paneA docB None tokenLive None)) = Some (Notebook docB)"
proof -
  have r: "resource docB = ''doc://B''"
    by (simp add: docB_def)
  show ?thesis
    using paneAB_start [of tokenLive]
      no_handler_prompts_and_keeps_input [OF paneAB_start [of tokenLive]]
    by (auto simp: r)
qed

text \<open>
  C5, as the claim states it, fails. \<^verbatim>\<open>setInput(docA)\<close> starts on the empty pane
  and waits; its token is cancelled; the call resumes with the document. The pane's
  input is \<^verbatim>\<open>docA\<close>, not the input it had before the call, and the resumed call
  calls \<^verbatim>\<open>setModel\<close> on the borrowed widget.
\<close>

theorem cancelled_token_counterexample:
  "setInput_start examplePool paneEmpty docA None tokenLive = (Awaiting, paneA)
   \<and> isCancellationRequested tokenCancelled
   \<and> input paneEmpty = None
   \<and> input (snd (setInput_resolved paneA docA None tokenCancelled (Some modelA))) =
       Some (Notebook docA)
   \<and> calls (snd (setInput_resolved paneA docA None tokenCancelled (Some modelA))) =
       calls paneA @ [SetModel 1 \<lparr>notebookUri = ''doc://A'', notebookHandle = 1\<rparr> None None]"
proof -
  have e: "input paneEmpty = None"
    by (simp add: paneEmpty_def)
  have r: "setInput_resolved paneA docA None tokenCancelled (Some modelA) =
      (Awaiting,
       paneA\<lparr>calls := calls paneA @
          [SetModel 1 \<lparr>notebookUri = ''doc://A'', notebookHandle = 1\<rparr> None None]\<rparr>)"
    by (simp add: paneA_eq setInput_resolved_def loadTextEditorViewState_def
        loadEditorState_def record_call_def widgetA_def modelA_def)
  show ?thesis
    unfolding r by (simp add: paneA_start e tokenCancelled_def paneA_eq)
qed

text \<open>
  C5, amended. The token is never read. When \<open>setInput\<close> has come to wait for its
  document and its token is cancelled meanwhile, the assigned input is the current
  input, and the resumed call does what it would do under a live token: with a
  document it calls \<^verbatim>\<open>setModel\<close> on the borrowed widget, with \<^verbatim>\<open>null\<close> it prompts.
  It does not write the view-state store.
\<close>

theorem cancellation_is_not_observed:
  assumes "setInput_start pool this inp opts token = (Awaiting, this1)"
    and "isCancellationRequested token'"
  shows "(\<exists>w. pool (group this) inp = Inr (Some w)
            \<and> setInput_resolved this1 inp opts token' (Some m) =
                (Awaiting,
                 this1\<lparr>calls := calls this1 @
                    [SetModel (widgetId w) (notebook m) (loadTextEditorViewState this1 inp) opts]\<rparr>))
       \<and> setInput_resolved this1 inp opts token' None =
           (Returned,
            this1\<lparr>calls := calls this1 @
               [Prompt Error ''fail.noEditor''
                  [\<lparr>label = ''fail.reOpen'', runForceFile = resource inp,
                    runOptions = \<lparr>spread = opts, override = False\<rparr>\<rparr>]]\<rparr>)
       \<and> setInput_resolved this1 inp opts token' model = setInput_resolved this1 inp opts token model
       \<and> input this1 = Some (Notebook inp)
       \<and> editorMemento (snd (setInput_resolved this1 inp opts token' model)) = editorMemento this1"
proof -
  obtain w where w: "pool (group this) inp = Inr (Some w)" "widget this1 = Some w"
    using setInput_start_Awaiting(1) [OF assms(1)] by blast
  have m: "setInput_resolved this1 inp opts token' (Some m) =
      (Awaiting,
       this1\<lparr>calls := calls this1 @
          [SetModel (widgetId w) (notebook m) (loadTextEditorViewState this1 inp) opts]\<rparr>)"
    using w(2) by (rule setInput_resolved_model)
  have n: "setInput_resolved this1 inp opts token' None =
      (Returned,
       this1\<lparr>calls := calls this1 @
          [Prompt Error ''fail.noEditor''
             [\<lparr>label = ''fail.reOpen'', runForceFile = resource inp,
               runOptions = \<lparr>spread = opts, override = False\<rparr>\<rparr>]]\<rparr>)"
    by (rule setInput_resolved_null)
  have t: "setInput_resolved this1 inp opts token' model = setInput_resolved this1 inp opts token model"
    by (simp add: setInput_resolved_def)
  have i: "input this1 = Some (Notebook inp)"
    using assms(1) by (rule setInput_start_Awaiting(2))
  have s: "editorMemento (snd (setInput_resolved this1 inp opts token' model)) = editorMemento this1"
    by (rule setInput_resolved_store)
  from w(1) m n t i s show ?thesis by blast
qed

theorem cancellation_is_not_observed_witness:
  "setInput_start examplePool paneEmpty docA None tokenLive = (Awaiting, paneA)
   \<and> isCancellationRequested tokenCancelled
   \<and> setInput_resolved paneA docA None tokenCancelled (Some modelA) =
       (Awaiting,
        paneA\<lparr>calls := calls paneA @
           [SetModel 1 \<lparr>notebookUri = ''doc://A'', notebookHandle = 1\<rparr> None None]\<rparr>)"
proof -
  have c: "isCancellationRequested tokenCancelled"
    by (simp add: tokenCancelled_def)
  show ?thesis
    using c paneA_start [of tokenLive]
      cancellation_is_not_observed [OF paneA_start [of tokenLive] c, of modelA None]
    by (auto simp: examplePool_def docA_def widgetA_def modelA_def paneA_eq
        loadTextEditorViewState_def loadEditorState_def)
qed

subsection \<open>Layout\<close>

text \<open>
  C4, as the claim states it, fails. The pane holds the widget retrieved for
  \<^verbatim>\<open>docA\<close> while \<^verbatim>\<open>setInput(docA)\<close> waits for its document: the widget has no view
  model, so it reports no document, and \<open>layout\<close> forwards the size to it all the same.
\<close>

theorem layout_counterexample:
  "input paneA = Some (Notebook docA) \<and> widget paneA = Some widgetA
   \<and> viewModel widgetA = None
   \<and> calls (layout paneA size800) = calls paneA @ [WidgetLayout 1 size800]"
  by (simp add: paneA_eq layout_def record_call_def widgetA_def)

text \<open>
  C4, amended. \<open>layout\<close> caches the size in every call. It forwards the size to the
  widget exactly when a widget is borrowed, the current input is a notebook input, and
  the widget either has no view model or has one whose uri is the input's resource.
  In every other case, a widget showing another document among them, the widget gets
  no call.
\<close>

theorem layout_caches_and_forwards:
  "dimension (layout this dim) = Some dim
   \<and> calls (layout this dim) =
       (case widget this of
          None \<Rightarrow> calls this
        | Some w \<Rightarrow>
            (case input this of
               Some (Notebook n) \<Rightarrow>
                 if viewModel w = None \<or> map_option uri (viewModel w) = Some (resource n)
                 then calls this @ [WidgetLayout (widgetId w) dim]
                 else calls this
             | _ \<Rightarrow> calls this))"
  by (auto simp: layout_def record_call_def Let_def split: option.splits EditorInput.splits)

theorem layout_caches_and_forwards_witness:
  "dimension (layout paneStale size800) = Some size800
   \<and> calls (layout paneStale size800) = calls paneStale
   \<and> calls (layout paneA size800) = calls paneA @ [WidgetLayout 1 size800]
   \<and> calls (layout paneEmpty size800) = []"
  using layout_caches_and_forwards [of paneStale size800]
    layout_caches_and_forwards [of paneA size800]
    layout_caches_and_forwards [of paneEmpty size800]
  by (simp add: paneStale_def paneAB_eq paneA_eq paneEmpty_def docA_def docB_def widgetA_def)

subsection \<open>Closing and persisting\<close>

text \<open>
  C6, as the claim states it, fails. The pane shows \<^verbatim>\<open>docA\<close> and its borrow is empty.
  The editor being closed is the current input, and nothing is written.
\<close>

theorem closing_counterexample:
  "input paneNoWidget = Some (Notebook docA)
   \<and> calls (onWillCloseEditorInGroup paneNoWidget (Notebook docA)) = calls paneNoWidget
   \<and> editorMemento (onWillCloseEditorInGroup paneNoWidget (Notebook docA)) = Map.empty"
  by (simp add: paneNoWidget_def paneA_eq onWillCloseEditorInGroup_def saveEditorViewState_def)

text \<open>
  C6, amended. \<open>onWillCloseEditorInGroup\<close> leaves the pane, its store included, as it
  is when the closing editor is not a notebook input, or is not the current input, or
  the pane has no group or no borrowed widget. When the closing editor is a notebook
  input and the current input, and the pane has a group and a borrowed widget, it
  writes the widget's view state under the group and the input's resource, and does
  nothing else.
\<close>

theorem closing_saves_only_current:
  "((\<forall>n. editor \<noteq> Notebook n) \<or> input this \<noteq> Some editor \<or> group this = None \<or> widget this = None
      \<longrightarrow> onWillCloseEditorInGroup this editor = this)
   \<and> (\<forall>n g w. editor = Notebook n \<and> input this = Some editor \<and> group this = Some g
         \<and> widget this = Some w \<longrightarrow>
       onWillCloseEditorInGroup this editor =
         this\<lparr>editorMemento := (editorMemento this)((g, resource n) \<mapsto> editorViewState w),
              calls := calls this @ [GetEditorViewState (widgetId w),
                                     SaveEditorState g (resource n) (editorViewState w)]\<rparr>)"
  by (auto simp: onWillCloseEditorInGroup_def saveEditorViewState_skip saveEditorViewState_write
      split: EditorInput.splits)

theorem closing_saves_only_current_witness:
  "onWillCloseEditorInGroup paneA (Notebook docB) = paneA
   \<and> onWillCloseEditorInGroup paneA (OtherInput 5) = paneA
   \<and> onWillCloseEditorInGroup paneA (Notebook docA) =
       paneA\<lparr>editorMemento := [(1, ''doc://A'') \<mapsto> ViewState 7],
             calls := calls paneA @ [GetEditorViewState 1,
                                     SaveEditorState 1 ''doc://A'' (ViewState 7)]\<rparr>"
  using closing_saves_only_current [of "Notebook docB" paneA]
    closing_saves_only_current [of "OtherInput 5" paneA]
    closing_saves_only_current [of "Notebook docA" paneA]
  by (simp add: paneA_eq docA_def docB_def widgetA_def)

text \<open>
  C8, as the claim states it, fails. The pane shows the notebook input \<^verbatim>\<open>docA\<close> and
  its borrow is empty: \<open>saveState\<close> saves nothing.
\<close>

theorem persist_counterexample:
  "input paneNoWidget = Some (Notebook docA)
   \<and> calls (saveState paneNoWidget) = calls paneNoWidget
   \<and> editorMemento (saveState paneNoWidget) = Map.empty"
  by (simp add: paneNoWidget_def paneA_eq saveState_def BaseEditor_saveState_def
      save_if_notebook_def saveEditorViewState_def)

text \<open>
  C8, amended. \<open>saveState\<close> is idempotent on the store: after two calls in a row the
  store is what it is after one. When the current input is a notebook input and the
  pane has a group and a borrowed widget, the store after the call is the store before
  it with the widget's view state under the group and the input's resource; in every
  other case the call leaves the pane as it is.
\<close>

theorem saveState_idempotent:
  "editorMemento (saveState (saveState this)) = editorMemento (saveState this)
   \<and> (\<forall>n g w. input this = Some (Notebook n) \<and> group this = Some g \<and> widget this = Some w \<longrightarrow>
         editorMemento (saveState this) =
           (editorMemento this)((g, resource n) \<mapsto> editorViewState w))
   \<and> ((\<forall>n. input this \<noteq> Some (Notebook n)) \<or> group this = None \<or> widget this = None \<longrightarrow>
         saveState this = this)"
  by (auto simp: saveState_def BaseEditor_saveState_def save_if_notebook_def
      saveEditorViewState_def saveEditorState_def record_call_def
      split: option.splits EditorInput.splits)

theorem saveState_idempotent_witness:
  "editorMemento (saveState paneA) = [(1, ''doc://A'') \<mapsto> ViewState 7]
   \<and> editorMemento (saveState (saveState paneA)) = [(1, ''doc://A'') \<mapsto> ViewState 7]
   \<and> saveState paneEmpty = paneEmpty"
  using saveState_idempotent [of paneA] saveState_idempotent [of paneEmpty]
  by (simp add: paneA_eq paneEmpty_def docA_def widgetA_def)

end
